theory Spec2Isabelle
  imports Complex_Main
begin

section \<open>Forced photometry (\<^verbatim>\<open>src/code/photometry.py\<close>)\<close>

subsection \<open>Python values and exceptions\<close>

text \<open>
  A Python float is an IEEE binary64 value. The model keeps its four kinds (finite,
  the two infinities, not-a-number) and computes on finite values with exact real
  arithmetic: rounding, overflow to infinity and the sign of zero are not modelled.
  The functions below only select values, multiply them by the conversion factor and
  take one square root, and compare the optimizer's \<^verbatim>\<open>dlnp\<close> with a constant.
\<close>

datatype pyfloat = Fin real | PInf | NInf | NaN

fun fsign :: "pyfloat \<Rightarrow> int" where
  "fsign (Fin x) = (if x < 0 then - 1 else if x = 0 then 0 else 1)"
| "fsign PInf = 1"
| "fsign NInf = - 1"
| "fsign NaN = 0"

text \<open>\<^verbatim>\<open>a * b\<close> on floats: a NaN operand gives NaN, infinity times zero gives NaN.\<close>

fun fmul :: "pyfloat \<Rightarrow> pyfloat \<Rightarrow> pyfloat" where
  "fmul NaN b = NaN"
| "fmul a NaN = NaN"
| "fmul (Fin x) (Fin y) = Fin (x * y)"
| "fmul a b =
     (let s = fsign a * fsign b
      in if s = 0 then NaN else if 0 < s then PInf else NInf)"

text \<open>\<^verbatim>\<open>np.sqrt(x)\<close> on a float: NaN for a negative argument (numpy warns, it does not raise).\<close>

fun np_sqrt :: "pyfloat \<Rightarrow> pyfloat" where
  "np_sqrt (Fin x) = (if x < 0 then NaN else Fin (sqrt x))"
| "np_sqrt PInf = PInf"
| "np_sqrt NInf = NaN"
| "np_sqrt NaN = NaN"

text \<open>\<^verbatim>\<open>a < b\<close> on floats: every comparison with NaN is false.\<close>

fun float_lt :: "pyfloat \<Rightarrow> pyfloat \<Rightarrow> bool" where
  "float_lt NaN b = False"
| "float_lt a NaN = False"
| "float_lt (Fin x) (Fin y) = (x < y)"
| "float_lt a PInf = (a \<noteq> PInf)"
| "float_lt NInf b = (b \<noteq> NInf)"
| "float_lt a b = False"

text \<open>
  The values a variance argument can hold: \<^verbatim>\<open>None\<close>, a Python float (such as the
  \<^verbatim>\<open>np.nan\<close> that \<^verbatim>\<open>run_tractor\<close> stores on failure), a numpy scalar
  (\<^verbatim>\<open>np.float64\<close>) or a one-dimensional array.
\<close>

datatype pyval = PyNone | PyFloat pyfloat | NpFloat pyfloat | PyArray "pyfloat list"

text \<open>
  Exceptions. \<^verbatim>\<open>KeyboardInterrupt\<close> and \<^verbatim>\<open>SystemExit\<close> derive from
  \<^verbatim>\<open>BaseException\<close> only; all the others derive from \<^verbatim>\<open>Exception\<close>
  (\<^verbatim>\<open>OtherException\<close> stands for any such exception of a library).
\<close>

datatype exn =
    CutoutError string
  | IndexError
  | ValueError
  | TypeError
  | UnboundLocalError
  | NameError
  | OtherException string
  | KeyboardInterrupt
  | SystemExit

fun is_Exception :: "exn \<Rightarrow> bool" where
  "is_Exception KeyboardInterrupt = False"
| "is_Exception SystemExit = False"
| "is_Exception e = True"

text \<open>
  Subscripting a list or a one-dimensional array with an integer, \<^verbatim>\<open>xs[i]\<close>:
  position \<open>i\<close> when \<open>0 \<le> i < len(xs)\<close>, position \<open>len(xs) + i\<close> when
  \<open>- len(xs) \<le> i < 0\<close>, and \<^verbatim>\<open>IndexError\<close> for every other \<open>i\<close>.
\<close>

definition seq_getitem :: "'a list \<Rightarrow> int \<Rightarrow> exn + 'a" where
  "seq_getitem xs i =
     (if 0 \<le> i \<and> i < int (length xs) then Inr (xs ! nat i)
      else if i < 0 \<and> - int (length xs) \<le> i then Inr (xs ! nat (int (length xs) + i))
      else Inl IndexError)"

text \<open>
  \<^verbatim>\<open>v[i]\<close> on a value: \<^verbatim>\<open>None\<close> and a Python float are not subscriptable
  (\<^verbatim>\<open>TypeError\<close>); a numpy scalar has no index that is valid
  (\<^verbatim>\<open>IndexError\<close>).
\<close>

fun py_getitem :: "pyval \<Rightarrow> int \<Rightarrow> exn + pyfloat" where
  "py_getitem PyNone i = Inl TypeError"
| "py_getitem (PyFloat x) i = Inl TypeError"
| "py_getitem (NpFloat x) i = Inl IndexError"
| "py_getitem (PyArray xs) i = seq_getitem xs i"

text \<open>\<^verbatim>\<open>xs.index(x)\<close>: the position of the first occurrence, \<^verbatim>\<open>ValueError\<close> if there is none.\<close>

fun list_index :: "'a list \<Rightarrow> 'a \<Rightarrow> exn + nat" where
  "list_index [] x = Inl ValueError"
| "list_index (y # ys) x =
     (if y = x then Inr 0
      else (case list_index ys x of Inl e \<Rightarrow> Inl e | Inr i \<Rightarrow> Inr (Suc i)))"

subsection \<open>Sources and the result interpreter\<close>

text \<open>
  A fitted source, as \<^verbatim>\<open>interpret_tractor_results\<close> sees it: what its methods
  \<^verbatim>\<open>getParamNames()\<close> and \<^verbatim>\<open>getParams()\<close> return.
\<close>

record source =
  getParamNames :: "string list"
  getParams :: "pyfloat list"

text \<open>The method calls made on the sources, by position in \<^verbatim>\<open>objsrc\<close>.\<close>

datatype access = GetParamNames nat | GetParams nat

text \<open>
  The three lines shared by both successful branches:
  \<^verbatim>\<open>
  params_list = objsrc[0].getParamNames()
  bindex = params_list.index("brightness.Flux")
  flux = objsrc[0].getParams()[bindex]
  \<close>
  The result comes with the list of the method calls made before returning or raising.
\<close>

definition read_flux :: "source list \<Rightarrow> access list \<times> (exn + pyfloat)" where
  "read_flux objsrc =
     (case seq_getitem objsrc 0 of
        Inl e \<Rightarrow> ([], Inl e)
      | Inr s \<Rightarrow>
          (case list_index (getParamNames s) ''brightness.Flux'' of
             Inl e \<Rightarrow> ([GetParamNames 0], Inl e)
           | Inr bindex \<Rightarrow>
               ([GetParamNames 0, GetParams 0], seq_getitem (getParams s) (int bindex))))"

definition interpret_tractor_results ::
  "pyval \<Rightarrow> pyfloat \<Rightarrow> bool \<Rightarrow> source list \<Rightarrow> int \<Rightarrow> access list \<times> (exn + pyfloat \<times> pyfloat)"
where
  "interpret_tractor_results flux_var flux_conv fit_fail objsrc nconfsrcs =
     (if fit_fail then ([], Inr (NaN, NaN))
      else if flux_var = PyNone then
        (case read_flux objsrc of
           (calls, Inl e) \<Rightarrow> (calls, Inl e)
         | (calls, Inr flux) \<Rightarrow> (calls, Inr (fmul flux flux_conv, NaN)))
      else
        (case read_flux objsrc of
           (calls, Inl e) \<Rightarrow> (calls, Inl e)
         | (calls, Inr flux) \<Rightarrow>
             (let fv = ((nconfsrcs + 1) * 3) - 1
              in case py_getitem flux_var fv of
                   Inl e \<Rightarrow> (calls, Inl e)
                 | Inr v \<Rightarrow>
                     (let tractor_std = np_sqrt v;
                          microJy_flux = fmul flux flux_conv;
                          microJy_unc = fmul tractor_std flux_conv
                      in (calls, Inr (microJy_flux, microJy_unc))))))"

subsection \<open>The optimizer loop\<close>

text \<open>
  The fitting engine (the \<^verbatim>\<open>tractor\<close> package) is a library: the model takes
  its operations as parameters, over any type \<open>'t\<close> of engine states.
  \<^item> \<open>make_tractor\<close> is lines 82 to 95 of \<^verbatim>\<open>run_tractor\<close>: building the image
    (\<^verbatim>\<open>Image(...)\<close> with \<^verbatim>\<open>invvar = ones / skynoise**2\<close>), the engine
    (\<^verbatim>\<open>Tractor([tim], objsrc)\<close>) and freezing the image parameters. It runs before
    the \<^verbatim>\<open>try\<close>.
  \<^item> \<open>optimize t variance\<close> is \<^verbatim>\<open>tractor.optimize(variance=...)\<close>: one
    linearized least squares step from state \<open>t\<close>. It returns the tuple
    \<^verbatim>\<open>(dlnp, X, alpha, flux_var)\<close> and the new state, or raises.
\<close>

type_synonym opt_out = "pyfloat \<times> pyval \<times> pyval \<times> pyval"

record ('t, 'img, 'prf) tractor_lib =
  make_tractor :: "'img \<Rightarrow> 'prf \<Rightarrow> source list \<Rightarrow> pyfloat \<Rightarrow> pyfloat \<Rightarrow> exn + 't"
  optimize :: "'t \<Rightarrow> bool \<Rightarrow> exn + opt_out \<times> 't"

text \<open>
  One entry per call of \<^verbatim>\<open>tractor.optimize\<close>: the value of its \<^verbatim>\<open>variance\<close>
  keyword and what the call returned or raised.
\<close>

type_synonym opt_call = "bool \<times> (exn + opt_out)"

text \<open>
  \<^verbatim>\<open>
  for tr in range(20):
      dlnp, X, alpha, flux_var = tractor.optimize(variance=True)
      if dlnp < 1e-3:
          break
  \<close>
  over the remaining values of \<^verbatim>\<open>tr\<close>. The variable \<^verbatim>\<open>flux_var\<close> is unbound
  (\<open>None\<close>) until a step has returned. The constant \<^verbatim>\<open>1e-3\<close> is the binary64
  number next to \<open>1/1000\<close>; no binary64 number lies between the two, so the comparison
  with \<open>1/1000\<close> decides the same.
\<close>

fun optimize_loop ::
  "('t \<Rightarrow> bool \<Rightarrow> exn + opt_out \<times> 't) \<Rightarrow> nat list \<Rightarrow> 't \<Rightarrow> pyval option
     \<Rightarrow> opt_call list \<times> (exn + pyval option)"
where
  "optimize_loop opt [] tractor flux_var = ([], Inr flux_var)"
| "optimize_loop opt (tr # trs) tractor flux_var =
     (case opt tractor True of
        Inl e \<Rightarrow> ([(True, Inl e)], Inl e)
      | Inr (out, tractor') \<Rightarrow>
          (case out of
             (dlnp, X, alpha, flux_var') \<Rightarrow>
               if float_lt dlnp (Fin (1 / 1000)) then ([(True, Inr out)], Inr (Some flux_var'))
               else
                 (case optimize_loop opt trs tractor' (Some flux_var') of
                    (calls, r) \<Rightarrow> ((True, Inr out) # calls, r))))"

text \<open>
  The name \<^verbatim>\<open>suppress_stdout\<close>. Its definition (line 158) is decorated with
  \<^verbatim>\<open>contextmanager\<close>, a name that the module neither imports nor defines: the
  definition raises \<^verbatim>\<open>NameError\<close> and binds nothing. When \<^verbatim>\<open>run_tractor\<close>
  reaches \<^verbatim>\<open>with suppress_stdout():\<close> (line 104) the name is unbound, and looking it
  up raises \<^verbatim>\<open>NameError\<close>.
\<close>

definition suppress_stdout :: "exn + unit" where
  "suppress_stdout = Inl NameError"

text \<open>
  The body of the \<^verbatim>\<open>try\<close> (lines 103 to 112): \<^verbatim>\<open>with suppress_stdout():\<close>, and
  inside it the loop.
\<close>

definition try_body ::
  "('t, 'img, 'prf) tractor_lib \<Rightarrow> 't \<Rightarrow> opt_call list \<times> (exn + pyval option)"
where
  "try_body lib tractor =
     (case suppress_stdout of
        Inl e \<Rightarrow> ([], Inl e)
      | Inr entered \<Rightarrow> optimize_loop (optimize lib) [0..<20] tractor None)"

text \<open>
  \<^verbatim>\<open>run_tractor\<close>: \<^verbatim>\<open>except Exception\<close> catches the instances of
  \<^verbatim>\<open>Exception\<close> (\<^verbatim>\<open>NameError\<close> is one) and lets any other exception pass. The
  result comes with the list of the calls of \<^verbatim>\<open>tractor.optimize\<close>. The engine
  updates the sources of \<^verbatim>\<open>objsrc\<close> in place; the fitted sources are an input of
  \<^verbatim>\<open>interpret_tractor_results\<close>.
\<close>

definition run_tractor ::
  "('t, 'img, 'prf) tractor_lib \<Rightarrow> 'img \<Rightarrow> 'prf \<Rightarrow> source list \<Rightarrow> pyfloat \<Rightarrow> pyfloat
     \<Rightarrow> opt_call list \<times> (exn + pyval \<times> bool)"
where
  "run_tractor lib subimage prf objsrc skymean skynoise =
     (case make_tractor lib subimage prf objsrc skymean skynoise of
        Inl e \<Rightarrow> ([], Inl e)
      | Inr tractor \<Rightarrow>
          (case try_body lib tractor of
             (calls, Inl e) \<Rightarrow>
               if is_Exception e then (calls, Inr (PyFloat NaN, True)) else (calls, Inl e)
           | (calls, Inr None) \<Rightarrow> (calls, Inl UnboundLocalError)
           | (calls, Inr (Some flux_var)) \<Rightarrow> (calls, Inr (flux_var, False))))"

subsection \<open>Cutouts\<close>

text \<open>
  Reading FITS files, building a WCS and \<^verbatim>\<open>extract_cutout\<close> (module
  \<^verbatim>\<open>extract_cutout\<close>) are parameters, over any types of HDUs, WCSs and pixel arrays:
  \<open>fits_open path\<close> is \<^verbatim>\<open>fits.open(path)[0]\<close>, and \<open>extract_cutout\<close> returns
  \<^verbatim>\<open>(subimage, nodata_param, x1, y1, subimage_wcs)\<close> with a boolean
  \<^verbatim>\<open>nodata_param\<close>, or raises.
\<close>

record ('hdu, 'wcs, 'img) cutout_lib =
  fits_open :: "string \<Rightarrow> exn + 'hdu"
  WCS :: "'hdu \<Rightarrow> exn + 'wcs"
  extract_cutout ::
    "pyfloat \<Rightarrow> pyfloat \<Rightarrow> int \<Rightarrow> pyfloat \<Rightarrow> 'hdu \<Rightarrow> 'wcs
       \<Rightarrow> exn + 'img \<times> bool \<times> pyfloat \<times> pyfloat \<times> 'wcs"

text \<open>The calls made to the libraries, in order.\<close>

datatype ('hdu, 'wcs) lib_call =
    FitsOpen string
  | MakeWCS 'hdu
  | ExtractCutout 'hdu 'wcs
  | FindNconfsources
  | SigmaClippedStats

definition cutout_error :: exn where
  "cutout_error = CutoutError ''Cutout could not be extracted''"

definition make_cutouts ::
  "('hdu, 'wcs, 'img) cutout_lib \<Rightarrow> pyfloat \<Rightarrow> pyfloat \<Rightarrow> string \<times> string \<Rightarrow> int \<Rightarrow> pyfloat
     \<Rightarrow> ('hdu, 'wcs) lib_call list \<times> (exn + 'img \<times> pyfloat \<times> pyfloat \<times> 'wcs \<times> 'img)"
where
  "make_cutouts lib ra dec infiles cutout_width mosaic_pix_scale =
     (case infiles of
        (imgfile, skybgfile) \<Rightarrow>
     (case fits_open lib imgfile of
        Inl e \<Rightarrow> ([FitsOpen imgfile], Inl e)
      | Inr hdulist \<Rightarrow>
     (case WCS lib hdulist of
        Inl e \<Rightarrow> ([FitsOpen imgfile, MakeWCS hdulist], Inl e)
      | Inr wcs_info \<Rightarrow>
     (let calls = [FitsOpen imgfile, MakeWCS hdulist, ExtractCutout hdulist wcs_info]
      in case extract_cutout lib ra dec cutout_width mosaic_pix_scale hdulist wcs_info of
        Inl e \<Rightarrow> (calls, Inl e)
      | Inr (subimage, nodata_param, x1, y1, subimage_wcs) \<Rightarrow>
          if nodata_param then (calls, Inl cutout_error)
          else if skybgfile = imgfile then (calls, Inr (subimage, x1, y1, subimage_wcs, subimage))
          else
     (case fits_open lib skybgfile of
        Inl e \<Rightarrow> (calls @ [FitsOpen skybgfile], Inl e)
      | Inr bkg_hdulist \<Rightarrow>
     (let calls' = calls @ [FitsOpen skybgfile, ExtractCutout bkg_hdulist wcs_info]
      in case extract_cutout lib ra dec cutout_width mosaic_pix_scale bkg_hdulist wcs_info of
        Inl e \<Rightarrow> (calls', Inl e)
      | Inr (bgsubimage, bgnodata_param, bgx1, bgy1, bgimage_wcs) \<Rightarrow>
          if bgnodata_param then (calls', Inl cutout_error)
          else (calls', Inr (subimage, x1, y1, subimage_wcs, bgsubimage))))))))"

text \<open>
  \<^verbatim>\<open>setup_for_tractor\<close>: the cutouts, then the source list
  (\<^verbatim>\<open>find_nconfsources\<close>, a parameter) and the sky statistics
  (\<^verbatim>\<open>sigma_clipped_stats\<close>, a parameter). Its result is what the fit needs.
\<close>

record band_configs =
  cutout_width :: int
  mosaic_pix_scale :: pyfloat

record ('wcs, 'img, 'stype, 'df) sources_lib =
  find_nconfsources ::
    "pyfloat \<Rightarrow> pyfloat \<Rightarrow> 'stype \<Rightarrow> pyfloat \<Rightarrow> pyfloat \<Rightarrow> pyfloat \<Rightarrow> int \<Rightarrow> 'wcs \<Rightarrow> 'df
       \<Rightarrow> exn + source list \<times> int"
  sigma_clipped_stats :: "'img \<Rightarrow> exn + pyfloat \<times> pyfloat \<times> pyfloat"

definition setup_for_tractor ::
  "('hdu, 'wcs, 'img) cutout_lib \<Rightarrow> ('wcs, 'img, 'stype, 'df) sources_lib \<Rightarrow> band_configs
     \<Rightarrow> pyfloat \<Rightarrow> pyfloat \<Rightarrow> 'stype \<Rightarrow> pyfloat \<Rightarrow> string \<times> string \<Rightarrow> 'df
     \<Rightarrow> ('hdu, 'wcs) lib_call list \<times> (exn + 'img \<times> source list \<times> int \<times> pyfloat \<times> pyfloat)"
where
  "setup_for_tractor lib slib band_configs ra dec stype ks_flux_aper2 infiles df =
     (case make_cutouts lib ra dec infiles (cutout_width band_configs)
             (mosaic_pix_scale band_configs) of
        (calls, Inl e) \<Rightarrow> (calls, Inl e)
      | (calls, Inr (subimage, x1, y1, subimage_wcs, bgsubimage)) \<Rightarrow>
     (case find_nconfsources slib ra dec stype ks_flux_aper2 x1 y1 (cutout_width band_configs)
             subimage_wcs df of
        Inl e \<Rightarrow> (calls @ [FindNconfsources], Inl e)
      | Inr (objsrc, nconfsrcs) \<Rightarrow>
     (case sigma_clipped_stats slib bgsubimage of
        Inl e \<Rightarrow> (calls @ [FindNconfsources, SigmaClippedStats], Inl e)
      | Inr (skymean, skymedian, skynoise) \<Rightarrow>
          (calls @ [FindNconfsources, SigmaClippedStats],
           Inr (subimage, objsrc, nconfsrcs, skymean, skynoise)))))"

subsection \<open>Libraries for the examples\<close>

text \<open>
  An optimizer that plays a script: each step takes the next entry, which is the
  exception the step raises or the \<^verbatim>\<open>dlnp\<close> and variance it reports (the variance
  only when asked for). After the script every step reports \<^verbatim>\<open>dlnp = 1.0\<close>.
\<close>

definition scripted_lib ::
  "(exn + pyfloat \<times> pyval) list \<Rightarrow> ((exn + pyfloat \<times> pyval) list, unit, unit) tractor_lib"
where
  "scripted_lib script =
     \<lparr>make_tractor = (\<lambda>subimage prf objsrc skymean skynoise. Inr script),
      optimize = (\<lambda>t variance.
        case t of
          [] \<Rightarrow> Inr ((Fin 1, PyNone, PyNone, PyNone), [])
        | Inl e # rest \<Rightarrow> Inl e
        | Inr (dlnp, fv) # rest \<Rightarrow>
            Inr ((dlnp, PyNone, PyNone, if variance then fv else PyNone), rest))\<rparr>"

text \<open>
  Files whose HDU is named by the path, with WCS, cutout, offset and local WCS named
  after the HDU they come from; the files listed in \<open>off_frame\<close> give no data at the
  requested position.
\<close>

definition named_files :: "string list \<Rightarrow> (string, string, string) cutout_lib" where
  "named_files off_frame =
     \<lparr>fits_open = (\<lambda>path. Inr path),
      WCS = (\<lambda>hdu. Inr (''wcs of '' @ hdu)),
      extract_cutout = (\<lambda>ra dec width scale hdu wcs.
        Inr (''cutout of '' @ hdu, hdu \<in> set off_frame, Fin (real (length hdu)), dec,
             hdu @ '' in '' @ wcs))\<rparr>"

definition no_neighbours :: "(string, string, unit, unit) sources_lib" where
  "no_neighbours =
     \<lparr>find_nconfsources = (\<lambda>ra dec stype flux x1 y1 width wcs df. Inr ([], 0)),
      sigma_clipped_stats = (\<lambda>img. Inr (Fin 0, Fin 0, Fin 1))\<rparr>"

text \<open>The number of calls of \<^verbatim>\<open>extract_cutout\<close> in a list of calls.\<close>

fun is_extraction :: "('hdu, 'wcs) lib_call \<Rightarrow> bool" where
  "is_extraction (ExtractCutout hdu wcs) = True"
| "is_extraction c = False"

definition extractions :: "('hdu, 'wcs) lib_call list \<Rightarrow> nat" where
  "extractions calls = length (filter is_extraction calls)"

section \<open>Properties of the result interpreter\<close>

lemma seq_getitem_0: "seq_getitem (s # rest) 0 = Inr s"
  by (simp add: seq_getitem_def)

lemma seq_getitem_nat: "b < length xs \<Longrightarrow> seq_getitem xs (int b) = Inr (xs ! b)"
  by (simp add: seq_getitem_def)

lemma seq_getitem_in_range:
  "0 \<le> i \<Longrightarrow> i < int (length xs) \<Longrightarrow> seq_getitem xs i = Inr (xs ! nat i)"
  by (simp add: seq_getitem_def)

lemma seq_getitem_too_short:
  "0 \<le> i \<Longrightarrow> int (length xs) \<le> i \<Longrightarrow> seq_getitem xs i = Inl IndexError"
  by (simp add: seq_getitem_def)

text \<open>The position found by \<^verbatim>\<open>index\<close> holds the name looked for.\<close>

lemma list_index_bound: "list_index xs x = Inr i \<Longrightarrow> i < length xs \<and> xs ! i = x"
  by (induction xs arbitrary: i) (auto split: if_splits sum.splits)

text \<open>
  When \<^verbatim>\<open>objsrc\<close> is not empty, its first source names a parameter
  \<^verbatim>\<open>brightness.Flux\<close> and has a parameter at that position, the flux is read with
  one call of each method on \<^verbatim>\<open>objsrc[0]\<close>.
\<close>

lemma read_flux_ok:
  assumes "objsrc = s # rest"
    and "list_index (getParamNames s) ''brightness.Flux'' = Inr b"
    and "b < length (getParams s)"
  shows "read_flux objsrc = ([GetParamNames 0, GetParams 0], Inr (getParams s ! b))"
  using assms by (simp add: read_flux_def seq_getitem_0 seq_getitem_nat)

text \<open>Conversely, a flux is read only in that situation.\<close>

lemma read_flux_Inr:
  assumes "snd (read_flux objsrc) = Inr flux"
  shows "\<exists>s rest b. objsrc = s # rest
           \<and> list_index (getParamNames s) ''brightness.Flux'' = Inr b
           \<and> b < length (getParams s) \<and> flux = getParams s ! b"
proof (cases objsrc)
  case Nil
  with assms show ?thesis by (simp add: read_flux_def seq_getitem_def)
next
  case (Cons s rest)
  show ?thesis
  proof (cases "list_index (getParamNames s) ''brightness.Flux''")
    case (Inl e)
    with assms Cons show ?thesis by (simp add: read_flux_def seq_getitem_0)
  next
    case (Inr b)
    with assms Cons have "seq_getitem (getParams s) (int b) = Inr flux"
      by (simp add: read_flux_def seq_getitem_0)
    then have "b < length (getParams s) \<and> flux = getParams s ! b"
      by (auto simp: seq_getitem_def split: if_splits)
    with Cons Inr show ?thesis by blast
  qed
qed

text \<open>
  Claim C2. With \<^verbatim>\<open>fit_fail = True\<close> the result is \<^verbatim>\<open>(nan, nan)\<close> whatever the
  variance, the conversion factor, the source list and the number of confusing sources
  are, and no method of any source is called.
\<close>

theorem interpret_fit_fail:
  "interpret_tractor_results flux_var flux_conv True objsrc nconfsrcs = ([], Inr (NaN, NaN))"
  by (simp add: interpret_tractor_results_def)

text \<open>An instance: a call whose source list is empty, where reading a source would raise.\<close>

theorem interpret_fit_fail_witness:
  "interpret_tractor_results (PyArray []) (Fin 2) True [] 3 = ([], Inr (NaN, NaN))
   \<and> snd (interpret_tractor_results (PyArray []) (Fin 2) False [] 3) = Inl IndexError"
  using interpret_fit_fail [where flux_var = "PyArray []" and flux_conv = "Fin 2"
          and objsrc = "[]" and nconfsrcs = 3]
  by (simp add: interpret_tractor_results_def read_flux_def seq_getitem_def)

text \<open>
  Claim C3. With \<^verbatim>\<open>fit_fail = False\<close> and \<^verbatim>\<open>flux_var = None\<close>, the result is
  \<^verbatim>\<open>(flux * flux_conv, nan)\<close>, where \<^verbatim>\<open>flux\<close> is the parameter of the first source
  of \<^verbatim>\<open>objsrc\<close> (the target) at the position of the name \<^verbatim>\<open>brightness.Flux\<close>;
  for a flux of 10.0 and a conversion factor of 2.0 it is \<^verbatim>\<open>(20.0, nan)\<close>.
\<close>

theorem interpret_no_variance:
  assumes "objsrc = s # rest"
    and "list_index (getParamNames s) ''brightness.Flux'' = Inr b"
    and "b < length (getParams s)"
  shows "snd (interpret_tractor_results PyNone flux_conv False objsrc nconfsrcs)
           = Inr (fmul (getParams s ! b) flux_conv, NaN)
       \<and> (getParams s ! b = Fin 10 \<and> flux_conv = Fin 2 \<longrightarrow>
            snd (interpret_tractor_results PyNone flux_conv False objsrc nconfsrcs)
              = Inr (Fin 20, NaN))"
  using read_flux_ok [OF assms] by (simp add: interpret_tractor_results_def)

theorem interpret_no_variance_witness:
  "snd (interpret_tractor_results PyNone (Fin 2) False
          [\<lparr>getParamNames = [''pos.x'', ''pos.y'', ''brightness.Flux''],
            getParams = [Fin 3, Fin 7, Fin 10]\<rparr>] 0)
     = Inr (Fin 20, NaN)"
proof -
  let ?s = "\<lparr>getParamNames = [''pos.x'', ''pos.y'', ''brightness.Flux''],
             getParams = [Fin 3, Fin 7, Fin 10]\<rparr>"
  have names: "list_index (getParamNames ?s) ''brightness.Flux'' = Inr 2"
    by simp
  have len: "2 < length (getParams ?s)"
    by simp
  from interpret_no_variance [where objsrc = "[?s]" and rest = "[]" and flux_conv = "Fin 2"
         and nconfsrcs = 0, OF refl names len]
  show ?thesis by simp
qed

text \<open>
  Claim C1. With \<^verbatim>\<open>fit_fail = False\<close> and a variance vector, the result is
  \<^verbatim>\<open>(flux * flux_conv, sqrt(variance[((nconfsrcs + 1) * 3) - 1]) * flux_conv)\<close>, where
  \<^verbatim>\<open>flux\<close> is the parameter of the first source of \<^verbatim>\<open>objsrc\<close> (the target) at the
  position of the name \<^verbatim>\<open>brightness.Flux\<close>; for one confusing source, a conversion
  factor of 1.0, a flux of 5.0 and the variance 4.0 at index 5 it is \<^verbatim>\<open>(5.0, 2.0)\<close>.
\<close>

theorem interpret_with_variance:
  assumes "objsrc = s # rest"
    and "list_index (getParamNames s) ''brightness.Flux'' = Inr b"
    and "b < length (getParams s)"
    and "seq_getitem variance (((nconfsrcs + 1) * 3) - 1) = Inr v"
  shows "snd (interpret_tractor_results (PyArray variance) flux_conv False objsrc nconfsrcs)
           = Inr (fmul (getParams s ! b) flux_conv, fmul (np_sqrt v) flux_conv)
       \<and> (nconfsrcs = 1 \<and> flux_conv = Fin 1 \<and> getParams s ! b = Fin 5 \<and> v = Fin 4 \<longrightarrow>
            snd (interpret_tractor_results (PyArray variance) flux_conv False objsrc nconfsrcs)
              = Inr (Fin 5, Fin 2))"
proof -
  have general:
    "snd (interpret_tractor_results (PyArray variance) flux_conv False objsrc nconfsrcs)
       = Inr (fmul (getParams s ! b) flux_conv, fmul (np_sqrt v) flux_conv)"
    using read_flux_ok [OF assms(1-3)] assms(4)
    by (simp add: interpret_tractor_results_def Let_def)
  have particular:
    "fmul (Fin 5) (Fin 1) = Fin 5 \<and> fmul (np_sqrt (Fin 4)) (Fin 1) = Fin 2"
    by simp
  show ?thesis
  proof (intro conjI impI)
    show "snd (interpret_tractor_results (PyArray variance) flux_conv False objsrc nconfsrcs)
       = Inr (fmul (getParams s ! b) flux_conv, fmul (np_sqrt v) flux_conv)"
      by (rule general)
  next
    assume "nconfsrcs = 1 \<and> flux_conv = Fin 1 \<and> getParams s ! b = Fin 5 \<and> v = Fin 4"
    then show "snd (interpret_tractor_results (PyArray variance) flux_conv False objsrc nconfsrcs)
              = Inr (Fin 5, Fin 2)"
      unfolding general using particular by simp
  qed
qed

theorem interpret_with_variance_witness:
  "seq_getitem [Fin 1, Fin 1, Fin 9, Fin 1, Fin 1, Fin 4] (((1 + 1) * 3) - 1) = Inr (Fin 4)
   \<and> snd (interpret_tractor_results (PyArray [Fin 1, Fin 1, Fin 9, Fin 1, Fin 1, Fin 4]) (Fin 1)
          False
          [\<lparr>getParamNames = [''pos.x'', ''pos.y'', ''brightness.Flux''],
            getParams = [Fin 3, Fin 7, Fin 5]\<rparr>,
           \<lparr>getParamNames = [''pos.x'', ''pos.y'', ''brightness.Flux''],
            getParams = [Fin 8, Fin 2, Fin 6]\<rparr>] 1)
     = Inr (Fin 5, Fin 2)"
proof -
  let ?s = "\<lparr>getParamNames = [''pos.x'', ''pos.y'', ''brightness.Flux''],
             getParams = [Fin 3, Fin 7, Fin 5]\<rparr>"
  let ?s' = "\<lparr>getParamNames = [''pos.x'', ''pos.y'', ''brightness.Flux''],
              getParams = [Fin 8, Fin 2, Fin 6]\<rparr>"
  let ?vs = "[Fin 1, Fin 1, Fin 9, Fin 1, Fin 1, Fin 4]"
  have names: "list_index (getParamNames ?s) ''brightness.Flux'' = Inr 2"
    by simp
  have len: "2 < length (getParams ?s)"
    by simp
  have var: "seq_getitem ?vs (((1 + 1) * 3) - 1) = Inr (Fin 4)"
    by (simp add: seq_getitem_def)
  from interpret_with_variance [where objsrc = "[?s, ?s']" and rest = "[?s']"
         and flux_conv = "Fin 1", OF refl names len var] var
  show ?thesis by simp
qed

text \<open>A pair is returned only when those reads succeed, and then it is that pair.\<close>

lemma interpret_with_variance_only:
  assumes "snd (interpret_tractor_results (PyArray variance) flux_conv False objsrc nconfsrcs)
             = Inr p"
  shows "\<exists>s rest b v. objsrc = s # rest
           \<and> list_index (getParamNames s) ''brightness.Flux'' = Inr b
           \<and> b < length (getParams s)
           \<and> seq_getitem variance (((nconfsrcs + 1) * 3) - 1) = Inr v
           \<and> p = (fmul (getParams s ! b) flux_conv, fmul (np_sqrt v) flux_conv)"
proof -
  obtain calls r where rf: "read_flux objsrc = (calls, r)"
    by (cases "read_flux objsrc")
  with assms obtain flux where r: "r = Inr flux"
    by (cases r) (simp_all add: interpret_tractor_results_def)
  from assms rf r obtain v
    where v: "seq_getitem variance (((nconfsrcs + 1) * 3) - 1) = Inr v"
    by (cases "seq_getitem variance (((nconfsrcs + 1) * 3) - 1)")
       (simp_all add: interpret_tractor_results_def Let_def)
  from assms rf r v have p: "p = (fmul flux flux_conv, fmul (np_sqrt v) flux_conv)"
    by (simp add: interpret_tractor_results_def Let_def)
  from rf r have "snd (read_flux objsrc) = Inr flux"
    by simp
  from read_flux_Inr [OF this] v p show ?thesis
    by blast
qed

text \<open>
  Claim C10, as stated, fails: without the precondition the function does not always
  raise. With \<^verbatim>\<open>nconfsrcs = -1\<close> the index is \<^verbatim>\<open>-1\<close>, which in Python is the last
  entry: the precondition \<^verbatim>\<open>nconfsrcs >= 0\<close> does not hold and a pair is returned.
\<close>

theorem variance_index_negative_counterexample:
  "(- 1 :: int) < 0
   \<and> snd (interpret_tractor_results (PyArray [Fin 9, Fin 4]) (Fin 1) False
          [\<lparr>getParamNames = [''pos.x'', ''pos.y'', ''brightness.Flux''],
            getParams = [Fin 3, Fin 7, Fin 5]\<rparr>] (- 1))
     = Inr (Fin 5, Fin 2)"
  by (simp add: interpret_tractor_results_def read_flux_def seq_getitem_def)

text \<open>
  Claim C10, amended. The variance is indexed at \<^verbatim>\<open>((nconfsrcs + 1) * 3) - 1\<close> with no
  guard. For \<^verbatim>\<open>nconfsrcs >= 0\<close> and a vector of length at least
  \<^verbatim>\<open>3 * (nconfsrcs + 1)\<close> the index is in bounds and a pair is returned. A Python float
  raises \<^verbatim>\<open>TypeError\<close>, a numpy scalar and a vector shorter than
  \<^verbatim>\<open>3 * (nconfsrcs + 1)\<close> raise \<^verbatim>\<open>IndexError\<close>: no sentinel is returned. For a
  negative \<^verbatim>\<open>nconfsrcs\<close> the index is negative and counts from the end of the vector:
  a pair is returned when the vector has at least \<^verbatim>\<open>- (3 * nconfsrcs + 2)\<close> entries,
  and \<^verbatim>\<open>IndexError\<close> is raised otherwise. (The flux is read first, so the source list
  is one whose flux can be read.)
\<close>

theorem variance_index_bounds:
  assumes "objsrc = s # rest"
    and "list_index (getParamNames s) ''brightness.Flux'' = Inr b"
    and "b < length (getParams s)"
  shows "(0 \<le> nconfsrcs \<and> 3 * (nconfsrcs + 1) \<le> int (length variance) \<longrightarrow>
            seq_getitem variance (((nconfsrcs + 1) * 3) - 1)
              = Inr (variance ! nat (((nconfsrcs + 1) * 3) - 1))
          \<and> snd (interpret_tractor_results (PyArray variance) flux_conv False objsrc nconfsrcs)
              = Inr (fmul (getParams s ! b) flux_conv,
                     fmul (np_sqrt (variance ! nat (((nconfsrcs + 1) * 3) - 1))) flux_conv))
       \<and> snd (interpret_tractor_results (PyFloat x) flux_conv False objsrc nconfsrcs)
           = Inl TypeError
       \<and> snd (interpret_tractor_results (NpFloat x) flux_conv False objsrc nconfsrcs)
           = Inl IndexError
       \<and> (int (length variance) < 3 * (nconfsrcs + 1) \<longrightarrow>
            snd (interpret_tractor_results (PyArray variance) flux_conv False objsrc nconfsrcs)
              = Inl IndexError)
       \<and> (nconfsrcs < 0 \<and> - (3 * nconfsrcs + 2) \<le> int (length variance) \<longrightarrow>
            snd (interpret_tractor_results (PyArray variance) flux_conv False objsrc nconfsrcs)
              = Inr (fmul (getParams s ! b) flux_conv,
                     fmul (np_sqrt (variance ! nat (int (length variance)
                                                     + (((nconfsrcs + 1) * 3) - 1)))) flux_conv))
       \<and> (nconfsrcs < 0 \<and> int (length variance) < - (3 * nconfsrcs + 2) \<longrightarrow>
            snd (interpret_tractor_results (PyArray variance) flux_conv False objsrc nconfsrcs)
              = Inl IndexError)"
proof (intro conjI impI)
  assume pre: "0 \<le> nconfsrcs \<and> 3 * (nconfsrcs + 1) \<le> int (length variance)"
  then show in_bounds: "seq_getitem variance (((nconfsrcs + 1) * 3) - 1)
      = Inr (variance ! nat (((nconfsrcs + 1) * 3) - 1))"
    by (intro seq_getitem_in_range) simp_all
  from read_flux_ok [OF assms] in_bounds
  show "snd (interpret_tractor_results (PyArray variance) flux_conv False objsrc nconfsrcs)
      = Inr (fmul (getParams s ! b) flux_conv,
             fmul (np_sqrt (variance ! nat (((nconfsrcs + 1) * 3) - 1))) flux_conv)"
    by (simp add: interpret_tractor_results_def Let_def)
next
  from read_flux_ok [OF assms]
  show "snd (interpret_tractor_results (PyFloat x) flux_conv False objsrc nconfsrcs)
      = Inl TypeError"
    by (simp add: interpret_tractor_results_def)
next
  from read_flux_ok [OF assms]
  show "snd (interpret_tractor_results (NpFloat x) flux_conv False objsrc nconfsrcs)
      = Inl IndexError"
    by (simp add: interpret_tractor_results_def)
next
  assume "int (length variance) < 3 * (nconfsrcs + 1)"
  then have "seq_getitem variance (((nconfsrcs + 1) * 3) - 1) = Inl IndexError"
    by (intro seq_getitem_too_short) simp_all
  with read_flux_ok [OF assms]
  show "snd (interpret_tractor_results (PyArray variance) flux_conv False objsrc nconfsrcs)
      = Inl IndexError"
    by (simp add: interpret_tractor_results_def Let_def)
next
  assume "nconfsrcs < 0 \<and> - (3 * nconfsrcs + 2) \<le> int (length variance)"
  then have "seq_getitem variance (((nconfsrcs + 1) * 3) - 1)
      = Inr (variance ! nat (int (length variance) + (((nconfsrcs + 1) * 3) - 1)))"
    by (simp add: seq_getitem_def)
  with read_flux_ok [OF assms]
  show "snd (interpret_tractor_results (PyArray variance) flux_conv False objsrc nconfsrcs)
      = Inr (fmul (getParams s ! b) flux_conv,
             fmul (np_sqrt (variance ! nat (int (length variance)
                                             + (((nconfsrcs + 1) * 3) - 1)))) flux_conv)"
    by (simp add: interpret_tractor_results_def Let_def)
next
  assume "nconfsrcs < 0 \<and> int (length variance) < - (3 * nconfsrcs + 2)"
  then have "seq_getitem variance (((nconfsrcs + 1) * 3) - 1) = Inl IndexError"
    by (simp add: seq_getitem_def)
  with read_flux_ok [OF assms]
  show "snd (interpret_tractor_results (PyArray variance) flux_conv False objsrc nconfsrcs)
      = Inl IndexError"
    by (simp add: interpret_tractor_results_def Let_def)
qed

text \<open>
  Four calls on one source list: a vector of six entries and one confusing source, a
  Python float, a vector of three entries, and a vector of two entries with
  \<^verbatim>\<open>nconfsrcs = -1\<close>.
\<close>

theorem variance_index_bounds_witness:
  "snd (interpret_tractor_results (PyArray [Fin 1, Fin 1, Fin 9, Fin 1, Fin 1, Fin 16]) (Fin 1)
          False
          [\<lparr>getParamNames = [''pos.x'', ''pos.y'', ''brightness.Flux''],
            getParams = [Fin 3, Fin 7, Fin 5]\<rparr>] 1)
     = Inr (Fin 5, Fin 4)
   \<and> snd (interpret_tractor_results (PyFloat NaN) (Fin 1) False
          [\<lparr>getParamNames = [''pos.x'', ''pos.y'', ''brightness.Flux''],
            getParams = [Fin 3, Fin 7, Fin 5]\<rparr>] 1)
     = Inl TypeError
   \<and> snd (interpret_tractor_results (PyArray [Fin 1, Fin 1, Fin 9]) (Fin 1) False
          [\<lparr>getParamNames = [''pos.x'', ''pos.y'', ''brightness.Flux''],
            getParams = [Fin 3, Fin 7, Fin 5]\<rparr>] 1)
     = Inl IndexError
   \<and> snd (interpret_tractor_results (PyArray [Fin 9, Fin 16]) (Fin 1) False
          [\<lparr>getParamNames = [''pos.x'', ''pos.y'', ''brightness.Flux''],
            getParams = [Fin 3, Fin 7, Fin 5]\<rparr>] (- 1))
     = Inr (Fin 5, Fin 4)"
proof -
  let ?s = "\<lparr>getParamNames = [''pos.x'', ''pos.y'', ''brightness.Flux''],
             getParams = [Fin 3, Fin 7, Fin 5]\<rparr>"
  have names: "list_index (getParamNames ?s) ''brightness.Flux'' = Inr 2"
    by simp
  have len: "2 < length (getParams ?s)"
    by simp
  have sq: "sqrt 16 = 4"
    using real_sqrt_abs2 [of 4] by simp
  from variance_index_bounds [where objsrc = "[?s]" and rest = "[]" and nconfsrcs = 1
         and variance = "[Fin 1, Fin 1, Fin 9, Fin 1, Fin 1, Fin 16]" and flux_conv = "Fin 1"
         and x = NaN, OF refl names len]
  have long: "snd (interpret_tractor_results
                     (PyArray [Fin 1, Fin 1, Fin 9, Fin 1, Fin 1, Fin 16]) (Fin 1) False [?s] 1)
                = Inr (Fin 5, Fin 4)"
    and scalar: "snd (interpret_tractor_results (PyFloat NaN) (Fin 1) False [?s] 1)
                = Inl TypeError"
    using sq by simp_all
  from variance_index_bounds [where objsrc = "[?s]" and rest = "[]" and nconfsrcs = 1
         and variance = "[Fin 1, Fin 1, Fin 9]" and flux_conv = "Fin 1"
         and x = NaN, OF refl names len]
  have short: "snd (interpret_tractor_results (PyArray [Fin 1, Fin 1, Fin 9]) (Fin 1) False
                      [?s] 1) = Inl IndexError"
    by simp
  from variance_index_bounds [where objsrc = "[?s]" and rest = "[]" and nconfsrcs = "- 1"
         and variance = "[Fin 9, Fin 16]" and flux_conv = "Fin 1"
         and x = NaN, OF refl names len]
  have negative: "snd (interpret_tractor_results (PyArray [Fin 9, Fin 16]) (Fin 1) False
                      [?s] (- 1)) = Inr (Fin 5, Fin 4)"
    using sq by simp
  from long scalar short negative show ?thesis by simp
qed

section \<open>Properties of the optimizer loop\<close>

lemma loop_Cons_calls:
  "fst (optimize_loop opt (tr # trs) t fv) =
     (case opt t True of
        Inl e \<Rightarrow> [(True, Inl e)]
      | Inr (out, t') \<Rightarrow>
          (True, Inr out) #
            (if float_lt (fst out) (Fin (1 / 1000)) then []
             else fst (optimize_loop opt trs t' (Some (snd (snd (snd out)))))))"
  by (auto split: sum.splits prod.splits)

lemma loop_length: "length (fst (optimize_loop opt trs t fv)) \<le> length trs"
proof (induction trs arbitrary: t fv)
  case Nil
  show ?case by simp
next
  case (Cons tr trs)
  show ?case
    unfolding loop_Cons_calls using Cons.IH
    by (auto split: sum.splits prod.splits)
qed

lemma loop_nonempty: "trs \<noteq> [] \<Longrightarrow> fst (optimize_loop opt trs t fv) \<noteq> []"
  by (cases trs) (auto split: sum.splits prod.splits)


lemma loop_early:
  "Suc i < length (fst (optimize_loop opt trs t fv)) \<Longrightarrow>
     \<exists>out. snd (fst (optimize_loop opt trs t fv) ! i) = Inr out
          \<and> \<not> float_lt (fst out) (Fin (1 / 1000))"
proof (induction trs arbitrary: t fv i)
  case Nil
  then show ?case by simp
next
  case (Cons tr trs)
  show ?case
  proof (cases "opt t True")
    case (Inl e)
    with Cons.prems show ?thesis by simp
  next
    case (Inr r)
    obtain dlnp X alpha fv' t' where r: "r = ((dlnp, X, alpha, fv'), t')"
      by (cases r) auto
    show ?thesis
    proof (cases "float_lt dlnp (Fin (1 / 1000))")
      case True
      with Cons.prems Inr r show ?thesis by simp
    next
      case False
      obtain calls res where rec: "optimize_loop opt trs t' (Some fv') = (calls, res)"
        by (cases "optimize_loop opt trs t' (Some fv')")
      show ?thesis
      proof (cases i)
        case 0
        with Inr r False rec show ?thesis by simp
      next
        case (Suc j)
        with Cons.prems Inr r False rec have "Suc j < length (fst (optimize_loop opt trs t' (Some fv')))"
          by simp
        from Cons.IH [OF this] Inr r False rec Suc show ?thesis by simp
      qed
    qed
  qed
qed

lemma loop_result:
  "fst (optimize_loop opt trs t fv) \<noteq> [] \<Longrightarrow>
     snd (optimize_loop opt trs t fv) =
       (case snd (last (fst (optimize_loop opt trs t fv))) of
          Inl e \<Rightarrow> Inl e
        | Inr (dlnp, X, alpha, fv') \<Rightarrow> Inr (Some fv'))"
proof (induction trs arbitrary: t fv)
  case Nil
  then show ?case by simp
next
  case (Cons tr trs)
  show ?case
  proof (cases "opt t True")
    case (Inl e)
    then show ?thesis by simp
  next
    case (Inr r)
    obtain dlnp X alpha fv' t' where r: "r = ((dlnp, X, alpha, fv'), t')"
      by (cases r) auto
    show ?thesis
    proof (cases "float_lt dlnp (Fin (1 / 1000))")
      case True
      with Inr r show ?thesis by simp
    next
      case False
      obtain calls res where rec: "optimize_loop opt trs t' (Some fv') = (calls, res)"
        by (cases "optimize_loop opt trs t' (Some fv')")
      show ?thesis
      proof (cases "calls = []")
        case True
        with rec have "trs = []" using loop_nonempty [of trs opt t' "Some fv'"] by auto
        with Inr r False show ?thesis by simp
      next
        case nonempty: False
        with rec Cons.IH [of t' "Some fv'"] Inr r False show ?thesis by simp
      qed
    qed
  qed
qed

lemma upt20: "[0..<20] = [0,1,2,3,4,5,6,7,8,9,10,11,12,13,14,15,16,17,18,19]"
  by code_simp

text \<open>
  The loop as written, entered with \<^verbatim>\<open>range(20)\<close>: at most 20 steps; every step but
  the last one made returned a \<^verbatim>\<open>dlnp\<close> that is not below \<^verbatim>\<open>1e-3\<close>; a first step
  that reports \<^verbatim>\<open>dlnp < 1e-3\<close> is the only step; after 20 steps the variance of the
  last step is left in \<^verbatim>\<open>flux_var\<close>.
\<close>

lemma optimize_loop_steps:
  assumes "optimize_loop opt [0..<20] t None = (calls, r)"
  shows "length calls \<le> 20
       \<and> (\<forall>i. Suc i < length calls \<longrightarrow>
             (\<exists>out. snd (calls ! i) = Inr out \<and> \<not> float_lt (fst out) (Fin (1 / 1000))))
       \<and> (\<forall>dlnp X alpha fv t'.
             opt t True = Inr ((dlnp, X, alpha, fv), t') \<and> float_lt dlnp (Fin (1 / 1000)) \<longrightarrow>
             calls = [(True, Inr (dlnp, X, alpha, fv))] \<and> r = Inr (Some fv))
       \<and> (\<forall>dlnp X alpha fv.
             length calls = 20 \<and> snd (last calls) = Inr (dlnp, X, alpha, fv) \<longrightarrow>
             r = Inr (Some fv))"
proof -
  have calls: "calls = fst (optimize_loop opt [0..<20] t None)"
    and r: "r = snd (optimize_loop opt [0..<20] t None)"
    using assms by simp_all
  have bound: "length calls \<le> 20"
    using loop_length [of opt "[0..<20]" t None] calls by simp
  have early: "\<exists>out. snd (calls ! i) = Inr out \<and> \<not> float_lt (fst out) (Fin (1 / 1000))"
    if "Suc i < length calls" for i
    using loop_early [of i opt "[0..<20]" t None] that calls by simp
  have first: "calls = [(True, Inr (dlnp, X, alpha, fv))] \<and> r = Inr (Some fv)"
    if "opt t True = Inr ((dlnp, X, alpha, fv), t')" and "float_lt dlnp (Fin (1 / 1000))"
    for dlnp X alpha fv t'
  proof -
    have "[0..<20] = 0 # [1..<20]"
      by (simp add: upt_conv_Cons)
    with that have "optimize_loop opt [0..<20] t None
        = ([(True, Inr (dlnp, X, alpha, fv))], Inr (Some fv))"
      by simp
    with assms show ?thesis by simp
  qed
  have last_step: "r = Inr (Some fv)"
    if "length calls = 20" and "snd (last calls) = Inr (dlnp, X, alpha, fv)"
    for dlnp X alpha fv
  proof -
    from that(1) calls have "fst (optimize_loop opt [0..<20] t None) \<noteq> []"
      by auto
    from loop_result [OF this] that(2) calls r show ?thesis
      by simp
  qed
  from bound early first last_step show ?thesis by blast
qed

section \<open>Properties of \<^verbatim>\<open>run_tractor\<close>\<close>

text \<open>
  The body of the \<^verbatim>\<open>try\<close> never reaches the loop: looking up
  \<^verbatim>\<open>suppress_stdout\<close> raises \<^verbatim>\<open>NameError\<close> first.
\<close>

lemma try_body_NameError: "try_body lib t = ([], Inl NameError)"
  by (simp add: try_body_def suppress_stdout_def)



text \<open>
  Claim C5 fails on the code. On an engine whose first optimization step would report
  \<^verbatim>\<open>dlnp = 0.0\<close>, which is below \<^verbatim>\<open>1e-3\<close>, \<^verbatim>\<open>run_tractor\<close> makes no
  optimization step at all and returns \<^verbatim>\<open>(nan, True)\<close>: the \<^verbatim>\<open>NameError\<close> raised at
  \<^verbatim>\<open>with suppress_stdout():\<close> is caught before the loop is entered. The claim asks for
  exactly one step and \<^verbatim>\<open>fit_fail = False\<close>, which is what the loop does once it is
  entered (\<open>optimize_loop_steps\<close>).
\<close>

theorem run_tractor_makes_no_step:
  "optimize (scripted_lib [Inr (Fin 0, PyArray [Fin 4])]) [Inr (Fin 0, PyArray [Fin 4])] True
     = Inr ((Fin 0, PyNone, PyNone, PyArray [Fin 4]), [])
   \<and> float_lt (Fin 0) (Fin (1 / 1000))
   \<and> optimize_loop (optimize (scripted_lib [Inr (Fin 0, PyArray [Fin 4])])) [0..<20]
         [Inr (Fin 0, PyArray [Fin 4])] None
       = ([(True, Inr (Fin 0, PyNone, PyNone, PyArray [Fin 4]))], Inr (Some (PyArray [Fin 4])))
   \<and> run_tractor (scripted_lib [Inr (Fin 0, PyArray [Fin 4])]) () () [] (Fin 0) (Fin 1)
       = ([], Inr (PyFloat NaN, True))"
  by (simp add: run_tractor_def try_body_NameError scripted_lib_def upt20)

section \<open>Properties of the optimization steps\<close>




section \<open>Properties of the cutouts\<close>

lemma make_cutouts_science:
  assumes "fits_open lib imgfile = Inr hdulist"
    and "WCS lib hdulist = Inr wcs_info"
    and "extract_cutout lib ra dec cw ps hdulist wcs_info
           = Inr (subimage, nodata_param, x1, y1, subimage_wcs)"
  shows "make_cutouts lib ra dec (imgfile, skybgfile) cw ps =
     (let calls = [FitsOpen imgfile, MakeWCS hdulist, ExtractCutout hdulist wcs_info]
      in if nodata_param then (calls, Inl cutout_error)
         else if skybgfile = imgfile then (calls, Inr (subimage, x1, y1, subimage_wcs, subimage))
         else
           (case fits_open lib skybgfile of
              Inl e \<Rightarrow> (calls @ [FitsOpen skybgfile], Inl e)
            | Inr bkg_hdulist \<Rightarrow>
                (let calls' = calls @ [FitsOpen skybgfile, ExtractCutout bkg_hdulist wcs_info]
                 in case extract_cutout lib ra dec cw ps bkg_hdulist wcs_info of
                      Inl e \<Rightarrow> (calls', Inl e)
                    | Inr (bgsubimage, bgnodata_param, bgx1, bgy1, bgimage_wcs) \<Rightarrow>
                        if bgnodata_param then (calls', Inl cutout_error)
                        else (calls', Inr (subimage, x1, y1, subimage_wcs, bgsubimage)))))"
  using assms by (simp add: make_cutouts_def Let_def)

lemma setup_propagates:
  assumes "make_cutouts lib ra dec infiles (cutout_width band_configs)
             (mosaic_pix_scale band_configs) = (calls, Inl e)"
  shows "setup_for_tractor lib slib band_configs ra dec stype ks_flux_aper2 infiles df
           = (calls, Inl e)"
  using assms by (simp add: setup_for_tractor_def)

lemma make_cutouts_no_fit_calls:
  "FindNconfsources \<notin> set (fst (make_cutouts lib ra dec infiles cw ps))
   \<and> SigmaClippedStats \<notin> set (fst (make_cutouts lib ra dec infiles cw ps))"
  by (auto simp: make_cutouts_def Let_def split: prod.splits sum.splits if_splits)

text \<open>
  Claim C6. When the science extraction or, for a background file of its own, the
  background extraction reports \<^verbatim>\<open>nodata_param = True\<close>, \<^verbatim>\<open>make_cutouts\<close> raises
  \<^verbatim>\<open>CutoutError\<close> and returns no cutout; \<^verbatim>\<open>setup_for_tractor\<close> raises it in
  turn, before the sources are looked for and the sky is measured, and returns nothing to
  fit.
\<close>

theorem make_cutouts_nodata:
  assumes "fits_open lib imgfile = Inr hdulist"
    and "WCS lib hdulist = Inr wcs_info"
    and "extract_cutout lib ra dec (cutout_width band_configs) (mosaic_pix_scale band_configs)
           hdulist wcs_info = Inr (subimage, nodata_param, x1, y1, subimage_wcs)"
    and "make_cutouts lib ra dec (imgfile, skybgfile) (cutout_width band_configs)
           (mosaic_pix_scale band_configs) = (calls, r)"
    and "nodata_param
         \<or> (skybgfile \<noteq> imgfile
            \<and> (\<exists>bkg_hdulist bgsubimage bgx1 bgy1 bgimage_wcs.
                  fits_open lib skybgfile = Inr bkg_hdulist
                  \<and> extract_cutout lib ra dec (cutout_width band_configs)
                       (mosaic_pix_scale band_configs) bkg_hdulist wcs_info
                      = Inr (bgsubimage, True, bgx1, bgy1, bgimage_wcs)))"
  shows "r = Inl cutout_error
       \<and> setup_for_tractor lib slib band_configs ra dec stype ks_flux_aper2 (imgfile, skybgfile) df
           = (calls, Inl cutout_error)
       \<and> FindNconfsources \<notin> set calls \<and> SigmaClippedStats \<notin> set calls"
proof -
  from assms(4,5) have r: "r = Inl cutout_error"
    unfolding make_cutouts_science [OF assms(1-3)]
    by (auto simp: Let_def split: if_splits)
  with assms(4) have "setup_for_tractor lib slib band_configs ra dec stype ks_flux_aper2
      (imgfile, skybgfile) df = (calls, Inl cutout_error)"
    by (intro setup_propagates) simp
  moreover from assms(4)
  have "FindNconfsources \<notin> set calls \<and> SigmaClippedStats \<notin> set calls"
    using make_cutouts_no_fit_calls [of lib ra dec "(imgfile, skybgfile)"
            "cutout_width band_configs" "mosaic_pix_scale band_configs"]
    by simp
  ultimately show ?thesis using r by simp
qed

text \<open>Two requests: the science file is off the frame; the background file is.\<close>

theorem make_cutouts_nodata_witness:
  "setup_for_tractor (named_files [''sci.fits'']) no_neighbours
         \<lparr>cutout_width = 11, mosaic_pix_scale = Fin (6 / 10)\<rparr>
         (Fin 10) (Fin 20) () (Fin 3) (''sci.fits'', ''background.fits'') ()
     = ([FitsOpen ''sci.fits'', MakeWCS ''sci.fits'', ExtractCutout ''sci.fits'' ''wcs of sci.fits''],
        Inl cutout_error)
   \<and> setup_for_tractor (named_files [''background.fits'']) no_neighbours
         \<lparr>cutout_width = 11, mosaic_pix_scale = Fin (6 / 10)\<rparr>
         (Fin 10) (Fin 20) () (Fin 3) (''sci.fits'', ''background.fits'') ()
     = ([FitsOpen ''sci.fits'', MakeWCS ''sci.fits'', ExtractCutout ''sci.fits'' ''wcs of sci.fits'',
         FitsOpen ''background.fits'', ExtractCutout ''background.fits'' ''wcs of sci.fits''],
        Inl cutout_error)"
proof -
  let ?bc = "\<lparr>cutout_width = 11, mosaic_pix_scale = Fin (6 / 10)\<rparr>"
  let ?files = "(''sci.fits'', ''background.fits'')"
  let ?sci = "named_files [''sci.fits'']"
  let ?bkg = "named_files [''background.fits'']"
  have sci_open: "fits_open ?sci ''sci.fits'' = Inr ''sci.fits''"
    by (simp add: named_files_def)
  have sci_wcs: "WCS ?sci ''sci.fits'' = Inr ''wcs of sci.fits''"
    by (simp add: named_files_def)
  have sci_flag: "extract_cutout ?sci (Fin 10) (Fin 20) (cutout_width ?bc) (mosaic_pix_scale ?bc)
        ''sci.fits'' ''wcs of sci.fits''
      = Inr (''cutout of sci.fits'', True, Fin 8, Fin 20, ''sci.fits in wcs of sci.fits'')"
    by (simp add: named_files_def)
  have sci_run: "make_cutouts ?sci (Fin 10) (Fin 20) ?files (cutout_width ?bc) (mosaic_pix_scale ?bc)
      = ([FitsOpen ''sci.fits'', MakeWCS ''sci.fits'', ExtractCutout ''sci.fits'' ''wcs of sci.fits''],
         Inl cutout_error)"
    by (simp add: make_cutouts_def named_files_def)
  have sci_pre: "True \<or> (''background.fits'' \<noteq> ''sci.fits''
      \<and> (\<exists>bkg_hdulist bgsubimage bgx1 bgy1 bgimage_wcs.
            fits_open ?sci ''background.fits'' = Inr bkg_hdulist
            \<and> extract_cutout ?sci (Fin 10) (Fin 20) (cutout_width ?bc) (mosaic_pix_scale ?bc)
                 bkg_hdulist ''wcs of sci.fits''
                = Inr (bgsubimage, True, bgx1, bgy1, bgimage_wcs)))"
    by simp
  have bkg_open: "fits_open ?bkg ''sci.fits'' = Inr ''sci.fits''"
    by (simp add: named_files_def)
  have bkg_wcs: "WCS ?bkg ''sci.fits'' = Inr ''wcs of sci.fits''"
    by (simp add: named_files_def)
  have bkg_sci: "extract_cutout ?bkg (Fin 10) (Fin 20) (cutout_width ?bc) (mosaic_pix_scale ?bc)
        ''sci.fits'' ''wcs of sci.fits''
      = Inr (''cutout of sci.fits'', False, Fin 8, Fin 20, ''sci.fits in wcs of sci.fits'')"
    by (simp add: named_files_def)
  have bkg_run: "make_cutouts ?bkg (Fin 10) (Fin 20) ?files (cutout_width ?bc) (mosaic_pix_scale ?bc)
      = ([FitsOpen ''sci.fits'', MakeWCS ''sci.fits'', ExtractCutout ''sci.fits'' ''wcs of sci.fits'',
          FitsOpen ''background.fits'', ExtractCutout ''background.fits'' ''wcs of sci.fits''],
         Inl cutout_error)"
    by (simp add: make_cutouts_def named_files_def)
  have "fits_open ?bkg ''background.fits'' = Inr ''background.fits''
      \<and> extract_cutout ?bkg (Fin 10) (Fin 20) (cutout_width ?bc) (mosaic_pix_scale ?bc)
           ''background.fits'' ''wcs of sci.fits''
         = Inr (''cutout of background.fits'', True, Fin 15, Fin 20,
                ''background.fits in wcs of sci.fits'')"
    by (simp add: named_files_def)
  then have bkg_pre: "False \<or> (''background.fits'' \<noteq> ''sci.fits''
      \<and> (\<exists>bkg_hdulist bgsubimage bgx1 bgy1 bgimage_wcs.
            fits_open ?bkg ''background.fits'' = Inr bkg_hdulist
            \<and> extract_cutout ?bkg (Fin 10) (Fin 20) (cutout_width ?bc) (mosaic_pix_scale ?bc)
                 bkg_hdulist ''wcs of sci.fits''
                = Inr (bgsubimage, True, bgx1, bgy1, bgimage_wcs)))"
    by blast
  have first: "setup_for_tractor ?sci no_neighbours ?bc (Fin 10) (Fin 20) () (Fin 3) ?files ()
      = ([FitsOpen ''sci.fits'', MakeWCS ''sci.fits'', ExtractCutout ''sci.fits'' ''wcs of sci.fits''],
         Inl cutout_error)"
    by (rule make_cutouts_nodata [OF sci_open sci_wcs sci_flag sci_run sci_pre,
                THEN conjunct2, THEN conjunct1])
  have second: "setup_for_tractor ?bkg no_neighbours ?bc (Fin 10) (Fin 20) () (Fin 3) ?files ()
      = ([FitsOpen ''sci.fits'', MakeWCS ''sci.fits'', ExtractCutout ''sci.fits'' ''wcs of sci.fits'',
          FitsOpen ''background.fits'', ExtractCutout ''background.fits'' ''wcs of sci.fits''],
         Inl cutout_error)"
    by (rule make_cutouts_nodata [OF bkg_open bkg_wcs bkg_sci bkg_run bkg_pre,
                THEN conjunct2, THEN conjunct1])
  from first second show ?thesis ..
qed

text \<open>
  Claim C7. When the background file is the science file, \<^verbatim>\<open>make_cutouts\<close> calls
  \<^verbatim>\<open>extract_cutout\<close> exactly once (whenever the file opens and its WCS is built),
  and the cutouts it returns as science and as background are the same value.
\<close>

theorem make_cutouts_same_file:
  assumes "make_cutouts lib ra dec (imgfile, imgfile) cw ps = (calls, r)"
  shows "(\<forall>hdulist wcs_info. fits_open lib imgfile = Inr hdulist \<and> WCS lib hdulist = Inr wcs_info
            \<longrightarrow> extractions calls = 1)
       \<and> (\<forall>subimage x1 y1 subimage_wcs bgsubimage.
            r = Inr (subimage, x1, y1, subimage_wcs, bgsubimage) \<longrightarrow>
              bgsubimage = subimage \<and> extractions calls = 1)"
proof -
  have once: "extractions calls = 1"
    if "fits_open lib imgfile = Inr hdulist" and "WCS lib hdulist = Inr wcs_info"
    for hdulist wcs_info
    using assms that
    by (auto simp: make_cutouts_def Let_def extractions_def split: sum.splits prod.splits if_splits)
  have same: "bgsubimage = subimage \<and> extractions calls = 1"
    if "r = Inr (subimage, x1, y1, subimage_wcs, bgsubimage)"
    for subimage x1 y1 subimage_wcs bgsubimage
    using assms that
    by (auto simp: make_cutouts_def Let_def extractions_def split: sum.splits prod.splits if_splits)
  from once same show ?thesis by blast
qed

text \<open>A request whose background file is the science file.\<close>

theorem make_cutouts_same_file_witness:
  "make_cutouts (named_files []) (Fin 10) (Fin 20) (''sci.fits'', ''sci.fits'') 11 (Fin (6 / 10))
     = ([FitsOpen ''sci.fits'', MakeWCS ''sci.fits'', ExtractCutout ''sci.fits'' ''wcs of sci.fits''],
        Inr (''cutout of sci.fits'', Fin 8, Fin 20, ''sci.fits in wcs of sci.fits'',
             ''cutout of sci.fits''))
   \<and> extractions
         [FitsOpen ''sci.fits'', MakeWCS ''sci.fits'', ExtractCutout ''sci.fits'' ''wcs of sci.fits'']
       = 1"
proof -
  have run: "make_cutouts (named_files []) (Fin 10) (Fin 20) (''sci.fits'', ''sci.fits'') 11
        (Fin (6 / 10))
      = ([FitsOpen ''sci.fits'', MakeWCS ''sci.fits'', ExtractCutout ''sci.fits'' ''wcs of sci.fits''],
         Inr (''cutout of sci.fits'', Fin 8, Fin 20, ''sci.fits in wcs of sci.fits'',
              ''cutout of sci.fits''))"
    by (simp add: make_cutouts_def named_files_def)
  from make_cutouts_same_file [OF run] run show ?thesis
    by simp
qed

text \<open>
  Claim C9. With a background file of its own, the only WCS built is the one of the
  science HDU and every extraction, the background's too, is called with it; the offsets
  and the local WCS returned are those of the science extraction, the background's are
  dropped.
\<close>

theorem make_cutouts_distinct_files:
  assumes "skybgfile \<noteq> imgfile"
    and "make_cutouts lib ra dec (imgfile, skybgfile) cw ps = (calls, r)"
  shows "(\<forall>hdu. MakeWCS hdu \<in> set calls \<longrightarrow> fits_open lib imgfile = Inr hdu)
       \<and> (\<forall>hdu wcs. ExtractCutout hdu wcs \<in> set calls \<longrightarrow>
            (\<exists>hdulist. fits_open lib imgfile = Inr hdulist \<and> WCS lib hdulist = Inr wcs))
       \<and> (\<forall>subimage x1 y1 subimage_wcs bgsubimage.
            r = Inr (subimage, x1, y1, subimage_wcs, bgsubimage) \<longrightarrow>
            (\<exists>hdulist wcs_info bkg_hdulist bgx1 bgy1 bgimage_wcs.
               fits_open lib imgfile = Inr hdulist \<and> WCS lib hdulist = Inr wcs_info
               \<and> fits_open lib skybgfile = Inr bkg_hdulist
               \<and> calls = [FitsOpen imgfile, MakeWCS hdulist, ExtractCutout hdulist wcs_info,
                          FitsOpen skybgfile, ExtractCutout bkg_hdulist wcs_info]
               \<and> extract_cutout lib ra dec cw ps hdulist wcs_info
                   = Inr (subimage, False, x1, y1, subimage_wcs)
               \<and> extract_cutout lib ra dec cw ps bkg_hdulist wcs_info
                   = Inr (bgsubimage, False, bgx1, bgy1, bgimage_wcs)))"
proof (intro conjI allI impI)
  fix hdu
  assume "MakeWCS hdu \<in> set calls"
  with assms(2) show "fits_open lib imgfile = Inr hdu"
    by (auto simp: make_cutouts_def Let_def split: sum.splits prod.splits if_splits)
next
  fix hdu wcs
  assume "ExtractCutout hdu wcs \<in> set calls"
  with assms(2) show "\<exists>hdulist. fits_open lib imgfile = Inr hdulist \<and> WCS lib hdulist = Inr wcs"
    by (auto simp: make_cutouts_def Let_def split: sum.splits prod.splits if_splits)
next
  fix subimage x1 y1 subimage_wcs bgsubimage
  assume "r = Inr (subimage, x1, y1, subimage_wcs, bgsubimage)"
  with assms show "\<exists>hdulist wcs_info bkg_hdulist bgx1 bgy1 bgimage_wcs.
               fits_open lib imgfile = Inr hdulist \<and> WCS lib hdulist = Inr wcs_info
               \<and> fits_open lib skybgfile = Inr bkg_hdulist
               \<and> calls = [FitsOpen imgfile, MakeWCS hdulist, ExtractCutout hdulist wcs_info,
                          FitsOpen skybgfile, ExtractCutout bkg_hdulist wcs_info]
               \<and> extract_cutout lib ra dec cw ps hdulist wcs_info
                   = Inr (subimage, False, x1, y1, subimage_wcs)
               \<and> extract_cutout lib ra dec cw ps bkg_hdulist wcs_info
                   = Inr (bgsubimage, False, bgx1, bgy1, bgimage_wcs)"
    by (auto simp: make_cutouts_def Let_def split: sum.splits prod.splits if_splits)
qed

text \<open>
  A request with a background file of its own: the second extraction is called with the
  HDU of the background and the WCS of the science file; the offset 8 and the local WCS
  returned come from the science extraction.
\<close>

theorem make_cutouts_distinct_files_witness:
  "make_cutouts (named_files []) (Fin 10) (Fin 20) (''sci.fits'', ''background.fits'') 11
       (Fin (6 / 10))
     = ([FitsOpen ''sci.fits'', MakeWCS ''sci.fits'', ExtractCutout ''sci.fits'' ''wcs of sci.fits'',
         FitsOpen ''background.fits'', ExtractCutout ''background.fits'' ''wcs of sci.fits''],
        Inr (''cutout of sci.fits'', Fin 8, Fin 20, ''sci.fits in wcs of sci.fits'',
             ''cutout of background.fits''))
   \<and> extract_cutout (named_files []) (Fin 10) (Fin 20) 11 (Fin (6 / 10)) ''background.fits''
         ''wcs of sci.fits''
       = Inr (''cutout of background.fits'', False, Fin 15, Fin 20,
              ''background.fits in wcs of sci.fits'')"
proof -
  have distinct: "''background.fits'' \<noteq> ''sci.fits''"
    by simp
  have run: "make_cutouts (named_files []) (Fin 10) (Fin 20) (''sci.fits'', ''background.fits'') 11
        (Fin (6 / 10))
      = ([FitsOpen ''sci.fits'', MakeWCS ''sci.fits'', ExtractCutout ''sci.fits'' ''wcs of sci.fits'',
          FitsOpen ''background.fits'', ExtractCutout ''background.fits'' ''wcs of sci.fits''],
         Inr (''cutout of sci.fits'', Fin 8, Fin 20, ''sci.fits in wcs of sci.fits'',
              ''cutout of background.fits''))"
    by (simp add: make_cutouts_def named_files_def)
  have bg: "extract_cutout (named_files []) (Fin 10) (Fin 20) 11 (Fin (6 / 10)) ''background.fits''
         ''wcs of sci.fits''
       = Inr (''cutout of background.fits'', False, Fin 15, Fin 20,
              ''background.fits in wcs of sci.fits'')"
    by (simp add: named_files_def)
  from make_cutouts_distinct_files [OF distinct run] run bg show ?thesis
    by simp
qed

end
